theory Spec2Isabelle
  imports Main
begin

section \<open>Strings\<close>


definition isspace :: "char \<Rightarrow> bool" where
  "isspace c = (let n = (of_char c :: nat) in (9 \<le> n \<and> n \<le> 13) \<or> (28 \<le> n \<and> n \<le> 32))"

definition lower_char :: "char \<Rightarrow> char" where
  "lower_char c =
     (let n = (of_char c :: nat) in if 65 \<le> n \<and> n \<le> 90 then char_of (n + 32) else c)"

definition lower :: "string \<Rightarrow> string" where
  "lower s = map lower_char s"

text \<open>\<^verbatim>\<open>str.strip()\<close>: the longest whitespace prefix and suffix are removed.\<close>

definition strip :: "string \<Rightarrow> string" where
  "strip s = rev (dropWhile isspace (rev (dropWhile isspace s)))"

text \<open>
  \<^verbatim>\<open>WHITESPACE_RE = re.compile(r"\s+")\<close> and \<^verbatim>\<open>WHITESPACE_RE.sub(repl, s)\<close>:
  scanning from the left, a character that is not whitespace is copied; at a whitespace
  character the greedy \<^verbatim>\<open>\s+\<close> consumes the whole run, which is replaced by \<open>repl\<close>.
\<close>

function WHITESPACE_RE_sub :: "string \<Rightarrow> string \<Rightarrow> string" where
  "WHITESPACE_RE_sub repl [] = []"
| "WHITESPACE_RE_sub repl (c # cs) =
     (if isspace c then repl @ WHITESPACE_RE_sub repl (dropWhile isspace cs)
      else c # WHITESPACE_RE_sub repl cs)"
  by pat_completeness auto
termination
  by (relation "measure (\<lambda>(repl, s). length s)")
     (auto simp: length_dropWhile_le less_Suc_eq_le)

definition METADATA_KEY_HANDOFF_DESTINATION :: string where
  "METADATA_KEY_HANDOFF_DESTINATION = ''__handoff_destination''"

text \<open>
  \<^verbatim>\<open>def _normalize_agent_name(agent_name):
      return WHITESPACE_RE.sub("_", agent_name.strip()).lower()\<close>
  (an identifier cannot start with an underscore here, so the leading one is dropped).
\<close>

definition normalize_agent_name :: "string \<Rightarrow> string" where
  "normalize_agent_name agent_name = lower (WHITESPACE_RE_sub ''_'' (strip agent_name))"

text \<open>
  The two text templates of the source are Chinese; they are written here as their
  UTF-8 bytes. \<open>handoff_content\<close> is \<^verbatim>\<open>f"... {agent_name}"\<close> of the tool message and
  \<open>default_description\<close> is \<^verbatim>\<open>f"... '{agent_name}' ..."\<close> of the default description.
\<close>

definition handoff_content :: "string \<Rightarrow> string" where
  "handoff_content agent_name =
     map char_of [0xE5, 0xB7, 0xB2, 0xE6, 0x88, 0x90, 0xE5, 0x8A, 0x9F, 0xE4, 0xBA, 0xA4,
       0xE6, 0x8E, 0xA5, 0xE8, 0x87, 0xB3, 0xE6, 0x99, 0xBA, 0xE8, 0x83, 0xBD, 0xE4, 0xBD,
       0x93, 0x20 :: nat] @ agent_name"

definition default_description :: "string \<Rightarrow> string" where
  "default_description agent_name =
     map char_of [0xE5, 0x90, 0x91, 0xE6, 0x99, 0xBA, 0xE8, 0x83, 0xBD, 0xE4, 0xBD, 0x93,
       0x20, 0x27 :: nat] @ agent_name @
     map char_of [0x27, 0x20, 0xE8, 0xAF, 0xB7, 0xE6, 0xB1, 0x82, 0xE5, 0xB8, 0xAE, 0xE5,
       0x8A, 0xA9 :: nat]"

section \<open>Messages, state, commands and errors\<close>

text \<open>
  The framework's message classes: the source builds a \<open>ToolMessage\<close> (content, name,
  tool_call_id); every other message of the shared log is an \<open>OtherMessage\<close> (its type
  and its content). A value of the state dict is \<open>None\<close>, a \<open>str\<close> or a list of messages.
\<close>

datatype message =
    ToolMessage string string string
  | OtherMessage string string

datatype pyval = PyNone | PyStr string | PyList "message list"

type_synonym state = "string \<rightharpoonup> pyval"

text \<open>
  The exceptions the code can raise. The messages of the \<open>ValueError\<close>s are kept as
  tags. Three are raised by \<^verbatim>\<open>swarm.py\<close> itself: the builder's schema lacks the
  field (raised by \<open>add_active_agent_router\<close>), the default agent is not in the route
  list (with both values, as the message formats them), the state schema lacks the field
  (raised by \<open>create_swarm\<close>). The others are raised by the framework's builder and pass
  through \<^verbatim>\<open>swarm.py\<close>: a branch of that name already exists on that source node
  (name, source), the node name is a state key, the node is already present, the node
  name is reserved, the node name contains a reserved character.
\<close>

datatype value_error =
    BuilderSchemaLacksActiveAgent
  | DefaultNotInRouteTo string "string list"
  | StateSchemaLacksActiveAgent
  | BranchAlreadyExists string string
  | NodeIsStateKey string
  | NodeAlreadyPresent string
  | NodeReserved string
  | ReservedCharacter char

datatype error = ValueError value_error | KeyError string | TypeError

datatype graph_ref = PARENT

record command =
  goto :: string
  graph :: graph_ref
  update :: "string \<rightharpoonup> pyval"

section \<open>handoff.py\<close>

text \<open>
  The body of the tool, with the variables of the enclosing \<open>create_handoff_tool\<close> it
  closes over (\<open>agent_name\<close>, \<open>name\<close>) as its first arguments.
  \<^verbatim>\<open>state["messages"]\<close> raises \<open>KeyError\<close> on a state without the key, and
  \<^verbatim>\<open>+ [tool_message]\<close> raises \<open>TypeError\<close> on a value that is not a list.
\<close>

definition handoff_to_agent :: "string \<Rightarrow> string \<Rightarrow> state \<Rightarrow> string \<Rightarrow> error + command" where
  "handoff_to_agent agent_name name state tool_call_id =
     (let tool_message = ToolMessage (handoff_content agent_name) name tool_call_id
      in case state ''messages'' of
           None \<Rightarrow> Inl (KeyError ''messages'')
         | Some (PyList messages) \<Rightarrow>
             Inr \<lparr>goto = agent_name, graph = PARENT,
                  update = [''messages'' \<mapsto> PyList (messages @ [tool_message]),
                            ''active_agent'' \<mapsto> PyStr agent_name]\<rparr>
         | Some _ \<Rightarrow> Inl TypeError)"

text \<open>
  A tool as \<^verbatim>\<open>@tool(name, description=description)\<close> builds it: its name, its
  description, its metadata (\<open>None\<close> unless set) and the function it runs with the
  injected state and tool call id.
\<close>

record tool =
  tool_name :: string
  tool_description :: string
  tool_metadata :: "(string \<rightharpoonup> string) option"
  tool_func :: "state \<Rightarrow> string \<Rightarrow> error + command"

definition create_handoff_tool :: "string \<Rightarrow> string option \<Rightarrow> tool" where
  "create_handoff_tool agent_name description =
     (let name = ''transfer_to_'' @ normalize_agent_name agent_name;
          description = (case description of
                           None \<Rightarrow> default_description agent_name
                         | Some d \<Rightarrow> d)
      in \<lparr>tool_name = name, tool_description = description,
          tool_metadata = Some [METADATA_KEY_HANDOFF_DESTINATION \<mapsto> agent_name],
          tool_func = handoff_to_agent agent_name name\<rparr>)"

text \<open>Invoking a tool runs its function on the injected state and tool call id.\<close>

definition invoke :: "tool \<Rightarrow> state \<Rightarrow> string \<Rightarrow> error + command" where
  "invoke t state tool_call_id = tool_func t state tool_call_id"

text \<open>
  A compiled agent graph, as far as the source reads it: \<^verbatim>\<open>agent.name\<close> and
  \<^verbatim>\<open>agent.get_graph().nodes\<close>, a dict from node names to nodes; a node has
  \<^verbatim>\<open>.data\<close>, which is a \<open>ToolNode\<close> (with its dict \<open>tools_by_name\<close>, kept in
  insertion order) or something else.
\<close>

datatype node_data = ToolNode "(string \<times> tool) list" | OtherData

record graph_node =
  data :: node_data

record CompiledStateGraph =
  name :: string
  get_graph_nodes :: "string \<rightharpoonup> graph_node"

text \<open>
  The element of the list comprehension for one tool:
  \<^verbatim>\<open>tool.metadata[KEY]\<close> if \<^verbatim>\<open>tool.metadata is not None and KEY in tool.metadata\<close>.
\<close>

definition handoff_destination :: "tool \<Rightarrow> string option" where
  "handoff_destination t =
     (case tool_metadata t of
        None \<Rightarrow> None
      | Some m \<Rightarrow> m METADATA_KEY_HANDOFF_DESTINATION)"

definition get_handoff_destinations :: "CompiledStateGraph \<Rightarrow> string \<Rightarrow> string list" where
  "get_handoff_destinations agent tool_node_name =
     (let nodes = get_graph_nodes agent
      in case nodes tool_node_name of
           None \<Rightarrow> []
         | Some n \<Rightarrow>
             (case data n of
                ToolNode tools_by_name \<Rightarrow>
                  (let tools = map snd tools_by_name
                   in List.map_filter handoff_destination tools)
              | OtherData \<Rightarrow> []))"

section \<open>swarm.py\<close>

text \<open>
  A state schema class, as far as the source reads it: the field names of
  \<^verbatim>\<open>state_schema.__annotations__\<close>. \<open>SwarmState\<close> extends the framework's
  \<open>MessagesState\<close> (a typed dict with the field \<open>messages\<close>) by \<open>active_agent\<close>.
\<close>

record state_schema =
  annotations :: "string list"

definition SwarmState :: state_schema where
  "SwarmState = \<lparr>annotations = [''messages'', ''active_agent'']\<rparr>"

text \<open>
  The framework's graph builder. A conditional edge is kept as the framework is given
  it: the source node, the name of the branch (the \<^verbatim>\<open>__name__\<close> of the routing
  function), the routing function and the path map. A node is kept with its name, the
  agent that runs in it and its declared destinations.
\<close>

record branch =
  branch_source :: string
  branch_name :: string
  branch_path :: "state \<Rightarrow> pyval"
  branch_path_map :: "string list"

record node_spec =
  node_name :: string
  node_action :: CompiledStateGraph
  node_destinations :: "string list"

record StateGraph =
  channels :: "string list"
  nodes :: "node_spec list"
  branches :: "branch list"

definition START :: string where
  "START = ''__start__''"

definition END :: string where
  "END = ''__end__''"

text \<open>
  Modelled from the spec: the framework's \<open>StateGraph\<close> class is not part of this
  repository. The spec describes its contract as node and edge registration
  (\<open>add_node\<close>, \<open>add_conditional_edges\<close>) over a declared state schema, and leaves what
  the framework enforces to the framework. A new builder has the fields of its schema as
  its channels (what \<^verbatim>\<open>builder.schemas[builder.schema]\<close> holds) and neither nodes
  nor edges; each registration is recorded in call order. The framework refuses a
  registration with a \<open>ValueError\<close>, before it changes the builder, in these cases:
  \<^item> \<open>add_conditional_edges\<close>: the source node already has a branch of the same name;
  \<^item> \<open>add_node\<close>: the node name is a state key; a node of that name is already present;
    the name is \<open>END\<close> or \<open>START\<close>; the name contains \<open>|\<close> or \<open>:\<close>.
\<close>

definition new_StateGraph :: "state_schema \<Rightarrow> StateGraph" where
  "new_StateGraph schema = \<lparr>channels = annotations schema, nodes = [], branches = []\<rparr>"

definition has_branch :: "StateGraph \<Rightarrow> string \<Rightarrow> string \<Rightarrow> bool" where
  "has_branch builder source name' =
     list_ex (\<lambda>b. branch_source b = source \<and> branch_name b = name') (branches builder)"

definition add_conditional_edges ::
  "StateGraph \<Rightarrow> string \<Rightarrow> string \<Rightarrow> (state \<Rightarrow> pyval) \<Rightarrow> string list
     \<Rightarrow> error + StateGraph" where
  "add_conditional_edges builder source name' path path_map =
     (if has_branch builder source name' then
        Inl (ValueError (BranchAlreadyExists name' source))
      else
        Inr (builder\<lparr>branches := branches builder @
          [\<lparr>branch_source = source, branch_name = name', branch_path = path,
            branch_path_map = path_map\<rparr>]\<rparr>))"

definition add_node ::
  "StateGraph \<Rightarrow> string \<Rightarrow> CompiledStateGraph \<Rightarrow> string list \<Rightarrow> error + StateGraph" where
  "add_node builder node action destinations =
     (if node \<in> set (channels builder) then Inl (ValueError (NodeIsStateKey node))
      else if node \<in> set (map node_name (nodes builder)) then
        Inl (ValueError (NodeAlreadyPresent node))
      else if node = END \<or> node = START then Inl (ValueError (NodeReserved node))
      else if CHR ''|'' \<in> set node then Inl (ValueError (ReservedCharacter CHR ''|''))
      else if CHR '':'' \<in> set node then Inl (ValueError (ReservedCharacter CHR '':''))
      else
        Inr (builder\<lparr>nodes := nodes builder @
          [\<lparr>node_name = node, node_action = action,
            node_destinations = destinations\<rparr>]\<rparr>))"

text \<open>
  The routing function, with the variable of the enclosing \<open>add_active_agent_router\<close>
  it closes over as its first argument:
  \<^verbatim>\<open>return state.get("active_agent", default_active_agent)\<close>.
\<close>

definition route_to_active_agent :: "string \<Rightarrow> state \<Rightarrow> pyval" where
  "route_to_active_agent default_active_agent state =
     (case state ''active_agent'' of
        Some v \<Rightarrow> v
      | None \<Rightarrow> PyStr default_active_agent)"

text \<open>
  \<open>add_active_agent_router\<close> mutates the builder it is given and returns that same
  object. The model returns the exception raised, if any, together with the builder as
  the call leaves it. An exception of \<open>add_conditional_edges\<close> passes through.
\<close>

definition add_active_agent_router ::
  "StateGraph \<Rightarrow> string list \<Rightarrow> string \<Rightarrow> error option \<times> StateGraph" where
  "add_active_agent_router builder route_to default_active_agent =
     (let chans = channels builder
      in if ''active_agent'' \<notin> set chans then
           (Some (ValueError BuilderSchemaLacksActiveAgent), builder)
         else if default_active_agent \<notin> set route_to then
           (Some (ValueError (DefaultNotInRouteTo default_active_agent route_to)), builder)
         else
           (case add_conditional_edges builder START ''route_to_active_agent''
                   (route_to_active_agent default_active_agent) route_to of
              Inl e \<Rightarrow> (Some e, builder)
            | Inr builder' \<Rightarrow> (None, builder')))"

text \<open>
  \<open>create_swarm\<close>. The loop over the agents stops at the first \<open>add_node\<close> that raises.
  \<open>get_handoff_destinations\<close> is called with its default \<open>tool_node_name\<close>, \<open>"tools"\<close>.
\<close>

fun add_agent_nodes :: "StateGraph \<Rightarrow> CompiledStateGraph list \<Rightarrow> error + StateGraph" where
  "add_agent_nodes builder [] = Inr builder"
| "add_agent_nodes builder (agent # agents) =
     (case add_node builder (name agent) agent (get_handoff_destinations agent ''tools'') of
        Inl e \<Rightarrow> Inl e
      | Inr builder' \<Rightarrow> add_agent_nodes builder' agents)"

definition create_swarm ::
  "CompiledStateGraph list \<Rightarrow> string \<Rightarrow> state_schema \<Rightarrow> error + StateGraph" where
  "create_swarm agents default_active_agent schema =
     (if ''active_agent'' \<notin> set (annotations schema) then
        Inl (ValueError StateSchemaLacksActiveAgent)
      else
        (let builder = new_StateGraph schema
         in case add_active_agent_router builder (map name agents) default_active_agent of
              (Some e, _) \<Rightarrow> Inl e
            | (None, builder') \<Rightarrow> add_agent_nodes builder' agents))"

section \<open>The normalisation in the spec's words\<close>

text \<open>
  The spec describes the normalisation as: strip leading and trailing whitespace,
  replace every maximal run of whitespace by a single underscore, lowercase the result.
  \<open>whitespace_runs\<close> cuts a string into its maximal runs of whitespace and of
  non-whitespace characters; \<open>normalize_spec\<close> follows the spec's words over them.
\<close>

function whitespace_runs :: "string \<Rightarrow> string list" where
  "whitespace_runs [] = []"
| "whitespace_runs (c # cs) =
     (c # takeWhile (\<lambda>d. isspace d = isspace c) cs)
       # whitespace_runs (dropWhile (\<lambda>d. isspace d = isspace c) cs)"
  by pat_completeness auto
termination
  by (relation "measure length") (auto simp: length_dropWhile_le less_Suc_eq_le)



section \<open>Example agents\<close>

text \<open>
  Two agents for the concrete instances below: \<open>alice\<close> has a tool node with two handoff
  tools and a tool without metadata between them; \<open>bob\<close> has no tool node.
\<close>

definition example_plain_tool :: tool where
  "example_plain_tool =
     \<lparr>tool_name = ''search'', tool_description = ''search the web'',
      tool_metadata = None, tool_func = handoff_to_agent ''dave'' ''search''\<rparr>"

definition example_alice :: CompiledStateGraph where
  "example_alice =
     \<lparr>name = ''alice'',
      get_graph_nodes =
        [''agent'' \<mapsto> \<lparr>data = OtherData\<rparr>,
         ''tools'' \<mapsto> \<lparr>data = ToolNode
            [(''transfer_to_bob'', create_handoff_tool ''bob'' None),
             (''search'', example_plain_tool),
             (''transfer_to_carol'', create_handoff_tool ''carol'' (Some ''ask carol''))]\<rparr>]\<rparr>"

definition example_bob :: CompiledStateGraph where
  "example_bob =
     \<lparr>name = ''bob'', get_graph_nodes = [''agent'' \<mapsto> \<lparr>data = OtherData\<rparr>]\<rparr>"

section \<open>Properties of the normalisation\<close>


text \<open>
  \<open>whitespace_runs\<close> cuts a string into its maximal runs: the runs concatenate to the
  string, no run is empty, all characters of a run are of one kind (whitespace or not),
  and neighbouring runs are of different kinds.
\<close>

lemma concat_whitespace_runs: "concat (whitespace_runs s) = s"
  by (induction s rule: whitespace_runs.induct) auto

lemma whitespace_runs_nonempty: "[] \<notin> set (whitespace_runs s)"
  by (induction s rule: whitespace_runs.induct) auto

lemma whitespace_runs_uniform:
  "r \<in> set (whitespace_runs s) \<Longrightarrow> c \<in> set r \<Longrightarrow> isspace c = isspace (hd r)"
proof (induction s rule: whitespace_runs.induct)
  case 1
  then show ?case by simp
next
  case (2 x xs)
  from "2.prems"(1) consider
      "r = x # takeWhile (\<lambda>d. isspace d = isspace x) xs"
    | "r \<in> set (whitespace_runs (dropWhile (\<lambda>d. isspace d = isspace x) xs))"
    by auto
  then show ?case
  proof cases
    case 1
    with "2.prems"(2) show ?thesis by (auto dest: set_takeWhileD)
  next
    case 2
    with "2.IH" "2.prems"(2) show ?thesis by blast
  qed
qed

lemma whitespace_runs_alternate:
  assumes "whitespace_runs s = r1 # r2 # rs"
  shows "isspace (hd r2) \<noteq> isspace (hd r1)"
proof (cases s)
  case Nil
  with assms show ?thesis by simp
next
  case (Cons c cs)
  let ?Q = "\<lambda>d. isspace d = isspace c"
  from assms Cons have r1: "hd r1 = c"
    and rest: "whitespace_runs (dropWhile ?Q cs) = r2 # rs"
    by auto
  from rest obtain d ds where d: "dropWhile ?Q cs = d # ds"
    by (cases "dropWhile ?Q cs") simp_all
  have "\<not> ?Q d"
    using d hd_dropWhile [of ?Q cs] by simp
  moreover from rest d have "hd r2 = d" by auto
  ultimately show ?thesis using r1 by simp
qed





section \<open>Properties of the handoff tool\<close>

lemma invoke_handoff_tool:
  "invoke (create_handoff_tool agent_name description) state tool_call_id
     = handoff_to_agent agent_name (''transfer_to_'' @ normalize_agent_name agent_name)
         state tool_call_id"
  by (simp add: invoke_def create_handoff_tool_def Let_def)

lemma handoff_tool_name_eq:
  "tool_name (create_handoff_tool agent_name description)
     = ''transfer_to_'' @ normalize_agent_name agent_name"
  by (simp add: create_handoff_tool_def Let_def)

text \<open>
  C1. For every agent name, every state whose \<open>messages\<close> entry is a list and every tool
  call id, invoking the handoff tool returns a command whose \<open>goto\<close> is the agent name and
  whose update maps \<open>messages\<close> to the state's list followed by exactly one tool message
  (carrying the tool's name and the tool call id).
\<close>

theorem handoff_appends_one_tool_message:
  assumes "state ''messages'' = Some (PyList messages)"
  shows "\<exists>c. invoke (create_handoff_tool agent_name description) state tool_call_id = Inr c
           \<and> goto c = agent_name
           \<and> update c ''messages'' =
               Some (PyList (messages @
                 [ToolMessage (handoff_content agent_name)
                    (tool_name (create_handoff_tool agent_name description)) tool_call_id]))"
  unfolding invoke_handoff_tool handoff_tool_name_eq
  using assms by (simp add: handoff_to_agent_def Let_def)

theorem handoff_appends_one_tool_message_witness:
  "\<exists>c. invoke (create_handoff_tool ''Bob'' None)
          [''messages'' \<mapsto> PyList [OtherMessage ''human'' ''hi'']] ''call_1'' = Inr c
      \<and> goto c = ''Bob''
      \<and> update c ''messages'' =
          Some (PyList [OtherMessage ''human'' ''hi'',
            ToolMessage (handoff_content ''Bob'') ''transfer_to_bob'' ''call_1''])"
proof -
  have "normalize_agent_name ''Bob'' = ''bob''"
    by code_simp
  then have name: "tool_name (create_handoff_tool ''Bob'' None) = ''transfer_to_bob''"
    by (simp add: handoff_tool_name_eq)
  have st: "[''messages'' \<mapsto> PyList [OtherMessage ''human'' ''hi'']] ''messages''
          = Some (PyList [OtherMessage ''human'' ''hi''])"
    by simp
  show ?thesis
    using handoff_appends_one_tool_message
            [where state = "[''messages'' \<mapsto> PyList [OtherMessage ''human'' ''hi'']]"
               and messages = "[OtherMessage ''human'' ''hi'']" and agent_name = "''Bob''"
               and description = None and tool_call_id = "''call_1''"]
          st name
    by simp
qed

text \<open>
  C5. For every agent name and every invocation of the handoff tool that returns a
  command, the command's update sets \<open>active_agent\<close> to the agent name as it was passed
  to the factory (not normalised).
\<close>

theorem handoff_sets_active_agent:
  assumes "invoke (create_handoff_tool agent_name description) state tool_call_id = Inr c"
  shows "update c ''active_agent'' = Some (PyStr agent_name)"
  using assms
  by (auto simp: invoke_handoff_tool handoff_to_agent_def Let_def
      split: option.splits pyval.splits)

theorem handoff_sets_active_agent_witness:
  "\<exists>c. invoke (create_handoff_tool ''Bob'' None) [''messages'' \<mapsto> PyList []] ''call_1''
          = Inr c
      \<and> update c ''active_agent'' = Some (PyStr ''Bob'')"
proof -
  obtain c where c: "invoke (create_handoff_tool ''Bob'' None)
      [''messages'' \<mapsto> PyList []] ''call_1'' = Inr c"
    by (simp add: invoke_handoff_tool handoff_to_agent_def Let_def)
  from handoff_sets_active_agent [OF c] c show ?thesis by simp
qed

section \<open>Properties of the swarm builder\<close>

text \<open>
  C2. When \<open>add_active_agent_router\<close> succeeds, it has installed one more conditional edge,
  from \<open>START\<close> with the route list as its path map, whose routing function applied to any
  state returns the value of the state's \<open>active_agent\<close> key when the key is present and
  the default active agent when it is absent.
\<close>

theorem installed_router_routes_to_active_agent:
  assumes "add_active_agent_router builder route_to default_active_agent = (None, builder')"
  shows "\<exists>b. branches builder' = branches builder @ [b]
           \<and> branch_source b = START
           \<and> branch_path_map b = route_to
           \<and> branch_path b state =
               (case state ''active_agent'' of
                  Some v \<Rightarrow> v
                | None \<Rightarrow> PyStr default_active_agent)"
  using assms
  by (auto simp: add_active_agent_router_def add_conditional_edges_def
      route_to_active_agent_def Let_def split: if_splits)

theorem installed_router_routes_to_active_agent_witness:
  "\<exists>b. branches (snd (add_active_agent_router (new_StateGraph SwarmState)
                          [''alice'', ''bob''] ''alice'')) = [b]
      \<and> branch_source b = START
      \<and> branch_path b [''active_agent'' \<mapsto> PyStr ''bob''] = PyStr ''bob''
      \<and> branch_path b Map.empty = PyStr ''alice''"
proof -
  let ?B = "new_StateGraph SwarmState"
  obtain B' where run: "add_active_agent_router ?B [''alice'', ''bob''] ''alice'' = (None, B')"
    by (simp add: add_active_agent_router_def add_conditional_edges_def has_branch_def
        new_StateGraph_def SwarmState_def)
  have old: "branches ?B = []"
    by (simp add: new_StateGraph_def)
  from installed_router_routes_to_active_agent [OF run, of "[''active_agent'' \<mapsto> PyStr ''bob'']"]
       installed_router_routes_to_active_agent [OF run, of Map.empty]
  show ?thesis
    unfolding run old by auto
qed

lemma second_router_refused:
  "fst (add_active_agent_router
          (snd (add_active_agent_router (new_StateGraph SwarmState) [''alice'', ''bob''] ''alice''))
          [''alice'', ''bob''] ''alice'')
     = Some (ValueError (BranchAlreadyExists ''route_to_active_agent'' START))"
  by (simp add: add_active_agent_router_def add_conditional_edges_def has_branch_def
      new_StateGraph_def SwarmState_def)

lemma first_router_keeps_channels:
  "channels (snd (add_active_agent_router (new_StateGraph SwarmState) [''alice'', ''bob'']
     ''alice'')) = [''messages'', ''active_agent'']"
  by (simp add: add_active_agent_router_def add_conditional_edges_def has_branch_def
      new_StateGraph_def SwarmState_def)

text \<open>
  C3, as the claim states it, fails: on a builder that already has the router, the field
  is in the schema and the default is in the route list, and the call raises
  \<open>ValueError\<close> all the same, because the framework refuses a second branch of the same
  name on \<open>START\<close>.
\<close>

theorem add_active_agent_router_second_call_counterexample:
  "''active_agent'' \<in> set (channels (snd (add_active_agent_router
       (new_StateGraph SwarmState) [''alice'', ''bob''] ''alice'')))
   \<and> ''alice'' \<in> set [''alice'', ''bob'']
   \<and> fst (add_active_agent_router
          (snd (add_active_agent_router (new_StateGraph SwarmState) [''alice'', ''bob''] ''alice''))
          [''alice'', ''bob''] ''alice'')
       = Some (ValueError (BranchAlreadyExists ''route_to_active_agent'' START))"
  by (simp add: second_router_refused first_router_keeps_channels)

text \<open>
  C3, amended. \<open>add_active_agent_router\<close> raises \<open>ValueError\<close> if and only if the builder's
  schema lacks the field \<open>active_agent\<close>, or the default active agent is not in the route
  list, or \<open>START\<close> already has a branch named \<open>route_to_active_agent\<close>; otherwise it
  raises nothing and returns the builder with the conditional entry edge installed.
\<close>

theorem add_active_agent_router_raises_iff:
  "if ''active_agent'' \<in> set (channels builder) \<and> default_active_agent \<in> set route_to
      \<and> \<not> has_branch builder START ''route_to_active_agent''
    then add_active_agent_router builder route_to default_active_agent
           = (None, builder\<lparr>branches := branches builder @
                [\<lparr>branch_source = START, branch_name = ''route_to_active_agent'',
                  branch_path = route_to_active_agent default_active_agent,
                  branch_path_map = route_to\<rparr>]\<rparr>)
    else \<exists>e. fst (add_active_agent_router builder route_to default_active_agent)
           = Some (ValueError e)"
  by (simp add: add_active_agent_router_def add_conditional_edges_def Let_def)

theorem add_active_agent_router_raises_iff_witness:
  "fst (add_active_agent_router (new_StateGraph SwarmState) [''alice'', ''bob''] ''alice'')
     = None
   \<and> map branch_source (branches (snd (add_active_agent_router (new_StateGraph SwarmState)
        [''alice'', ''bob''] ''alice''))) = [START]
   \<and> (\<exists>e. fst (add_active_agent_router (new_StateGraph SwarmState) [''alice'', ''bob'']
                  ''carol'') = Some (ValueError e))
   \<and> (\<exists>e. fst (add_active_agent_router (new_StateGraph \<lparr>annotations = [''messages'']\<rparr>)
                  [''alice'', ''bob''] ''alice'') = Some (ValueError e))
   \<and> (\<exists>e. fst (add_active_agent_router
                  (snd (add_active_agent_router (new_StateGraph SwarmState)
                     [''alice'', ''bob''] ''alice''))
                  [''alice'', ''bob''] ''alice'') = Some (ValueError e))"
proof -
  let ?B = "new_StateGraph SwarmState"
  let ?B1 = "snd (add_active_agent_router ?B [''alice'', ''bob''] ''alice'')"
  have fresh: "\<not> has_branch ?B START ''route_to_active_agent''"
    by (simp add: has_branch_def new_StateGraph_def)
  have chans: "channels ?B = [''messages'', ''active_agent'']"
    by (simp add: new_StateGraph_def SwarmState_def)
  have ok: "fst (add_active_agent_router ?B [''alice'', ''bob''] ''alice'') = None
      \<and> map branch_source (branches ?B1) = [START]"
    using add_active_agent_router_raises_iff [of ?B "''alice''" "[''alice'', ''bob'']"]
      fresh chans by (simp add: new_StateGraph_def)
  have no_default: "\<exists>e. fst (add_active_agent_router ?B [''alice'', ''bob''] ''carol'')
      = Some (ValueError e)"
    using add_active_agent_router_raises_iff [of ?B "''carol''" "[''alice'', ''bob'']"]
    by simp
  have no_field: "\<exists>e. fst (add_active_agent_router
      (new_StateGraph \<lparr>annotations = [''messages'']\<rparr>) [''alice'', ''bob''] ''alice'')
      = Some (ValueError e)"
    using add_active_agent_router_raises_iff
      [of "new_StateGraph \<lparr>annotations = [''messages'']\<rparr>" "''alice''" "[''alice'', ''bob'']"]
    by (simp add: new_StateGraph_def)
  have installed: "has_branch ?B1 START ''route_to_active_agent''"
    by (simp add: add_active_agent_router_def add_conditional_edges_def has_branch_def
        new_StateGraph_def SwarmState_def)
  have twice: "\<exists>e. fst (add_active_agent_router ?B1 [''alice'', ''bob''] ''alice'')
      = Some (ValueError e)"
    using add_active_agent_router_raises_iff [of ?B1 "''alice''" "[''alice'', ''bob'']"]
      installed by simp
  from ok no_default no_field twice show ?thesis by simp
qed

text \<open>
  C10. When \<open>add_active_agent_router\<close> raises, the builder it was given is left as it
  was: both validations come before the edge is added.
\<close>

theorem add_active_agent_router_atomic:
  assumes "fst (add_active_agent_router builder route_to default_active_agent) = Some e"
  shows "snd (add_active_agent_router builder route_to default_active_agent) = builder"
  using assms
  by (simp add: add_active_agent_router_def Let_def split: if_splits sum.splits)

theorem add_active_agent_router_atomic_witness:
  "fst (add_active_agent_router (new_StateGraph SwarmState) [''alice'', ''bob''] ''carol'')
     = Some (ValueError (DefaultNotInRouteTo ''carol'' [''alice'', ''bob'']))
   \<and> snd (add_active_agent_router (new_StateGraph SwarmState) [''alice'', ''bob''] ''carol'')
     = new_StateGraph SwarmState"
proof -
  have raised: "fst (add_active_agent_router (new_StateGraph SwarmState) [''alice'', ''bob'']
      ''carol'') = Some (ValueError (DefaultNotInRouteTo ''carol'' [''alice'', ''bob'']))"
    by (simp add: add_active_agent_router_def new_StateGraph_def SwarmState_def)
  from add_active_agent_router_atomic [OF raised] raised show ?thesis by simp
qed

text \<open>
  C6. \<open>create_swarm\<close> raises \<open>ValueError\<close> when the annotations of the state schema do not
  contain \<open>active_agent\<close>. The error is the one of \<open>create_swarm\<close>'s own check, which
  comes before the builder is constructed, not the one of the router's check.
\<close>

theorem create_swarm_requires_active_agent:
  assumes "''active_agent'' \<notin> set (annotations schema)"
  shows "create_swarm agents default_active_agent schema
           = Inl (ValueError StateSchemaLacksActiveAgent)"
  using assms by (simp add: create_swarm_def)

theorem create_swarm_requires_active_agent_witness:
  "''active_agent'' \<notin> set (annotations \<lparr>annotations = [''messages'']\<rparr>)
   \<and> create_swarm [example_alice, example_bob] ''alice'' \<lparr>annotations = [''messages'']\<rparr>
       = Inl (ValueError StateSchemaLacksActiveAgent)"
proof -
  have lacks: "''active_agent'' \<notin> set (annotations \<lparr>annotations = [''messages'']\<rparr>)"
    by simp
  from create_swarm_requires_active_agent [OF lacks] lacks show ?thesis by simp
qed

lemma add_agent_nodes_succeeds:
  assumes "distinct (map name agents)"
    and "\<forall>a\<in>set agents. name a \<notin> set (channels b)
           \<and> name a \<notin> set (map node_name (nodes b))
           \<and> name a \<noteq> END \<and> name a \<noteq> START
           \<and> CHR ''|'' \<notin> set (name a) \<and> CHR '':'' \<notin> set (name a)"
  shows "add_agent_nodes b agents =
     Inr (b\<lparr>nodes := nodes b @
        map (\<lambda>a. \<lparr>node_name = name a, node_action = a,
                   node_destinations = get_handoff_destinations a ''tools''\<rparr>) agents\<rparr>)"
  using assms
proof (induction agents arbitrary: b)
  case Nil
  show ?case by simp
next
  case (Cons a agents)
  let ?b' = "b\<lparr>nodes := nodes b @
      [\<lparr>node_name = name a, node_action = a,
        node_destinations = get_handoff_destinations a ''tools''\<rparr>]\<rparr>"
  from Cons.prems have step:
    "add_node b (name a) a (get_handoff_destinations a ''tools'') = Inr ?b'"
    by (simp add: add_node_def)
  from Cons.prems have "add_agent_nodes ?b' agents =
     Inr (?b'\<lparr>nodes := nodes ?b' @
        map (\<lambda>a. \<lparr>node_name = name a, node_action = a,
                   node_destinations = get_handoff_destinations a ''tools''\<rparr>) agents\<rparr>)"
    by (intro Cons.IH) (auto simp: image_iff)
  with step show ?case by simp
qed

lemma example_destinations:
  "get_handoff_destinations example_alice ''tools'' = [''bob'', ''carol'']"
  "get_handoff_destinations example_bob ''tools'' = []"
  by (simp_all add: get_handoff_destinations_def example_alice_def example_bob_def
      example_plain_tool_def handoff_destination_def create_handoff_tool_def Let_def
      METADATA_KEY_HANDOFF_DESTINATION_def List.map_filter_simps)

lemma example_names:
  "name example_alice = ''alice''" "name example_bob = ''bob''"
  by (simp_all add: example_alice_def example_bob_def)

text \<open>
  C7, as the claim states it, fails: on a list in which an agent name occurs twice, with
  the field in the schema and the default among the names, \<open>create_swarm\<close> raises
  \<open>ValueError\<close>, because the framework refuses a second node of the same name.
\<close>

theorem create_swarm_duplicate_name_counterexample:
  "[example_alice, example_alice] \<noteq> []
   \<and> ''active_agent'' \<in> set (annotations SwarmState)
   \<and> ''alice'' \<in> set (map name [example_alice, example_alice])
   \<and> create_swarm [example_alice, example_alice] ''alice'' SwarmState
       = Inl (ValueError (NodeAlreadyPresent ''alice''))"
  by (simp add: create_swarm_def add_active_agent_router_def add_conditional_edges_def
      has_branch_def new_StateGraph_def SwarmState_def add_node_def example_names
      START_def END_def)

text \<open>
  C7, amended. For every list of agents whose names are pairwise distinct and none of
  which is a state key of the schema, \<open>END\<close> or \<open>START\<close>, or contains \<open>|\<close> or \<open>:\<close>, with
  \<open>active_agent\<close> among the annotations of the state schema and the default active agent
  among the agents' names (so the list is not empty), \<open>create_swarm\<close> returns a builder
  with one node per agent, in order, named by the agent's name, running the agent, with
  the agent's handoff destinations as declared destinations, and with one conditional
  edge, from \<open>START\<close> to the agents' names, whose routing function returns the state's
  \<open>active_agent\<close> when present and the default active agent otherwise.
\<close>

theorem create_swarm_builds_graph:
  assumes "''active_agent'' \<in> set (annotations schema)"
    and "default_active_agent \<in> set (map name agents)"
    and "distinct (map name agents)"
    and "\<forall>a\<in>set agents. name a \<notin> set (annotations schema)
           \<and> name a \<noteq> END \<and> name a \<noteq> START
           \<and> CHR ''|'' \<notin> set (name a) \<and> CHR '':'' \<notin> set (name a)"
  shows "\<exists>b. create_swarm agents default_active_agent schema = Inr b
           \<and> nodes b = map (\<lambda>a. \<lparr>node_name = name a, node_action = a,
                 node_destinations = get_handoff_destinations a ''tools''\<rparr>) agents
           \<and> (\<exists>r. branches b = [r]
                 \<and> branch_source r = START
                 \<and> branch_path_map r = map name agents
                 \<and> (\<forall>state. branch_path r state =
                       (case state ''active_agent'' of
                          Some v \<Rightarrow> v
                        | None \<Rightarrow> PyStr default_active_agent)))"
proof -
  let ?r = "\<lparr>branch_source = START, branch_name = ''route_to_active_agent'',
             branch_path = route_to_active_agent default_active_agent,
             branch_path_map = map name agents\<rparr>"
  let ?b = "\<lparr>channels = annotations schema, nodes = [], branches = [?r]\<rparr>"
  have router: "add_active_agent_router (new_StateGraph schema) (map name agents)
      default_active_agent = (None, ?b)"
    using assms(1,2)
    by (simp add: add_active_agent_router_def add_conditional_edges_def has_branch_def
        new_StateGraph_def)
  have "add_agent_nodes ?b agents =
     Inr (?b\<lparr>nodes := nodes ?b @
        map (\<lambda>a. \<lparr>node_name = name a, node_action = a,
                   node_destinations = get_handoff_destinations a ''tools''\<rparr>) agents\<rparr>)"
    using assms(3,4) by (intro add_agent_nodes_succeeds) auto
  with router assms(1) show ?thesis
    by (simp add: create_swarm_def route_to_active_agent_def)
qed

theorem create_swarm_builds_graph_witness:
  "\<exists>b. create_swarm [example_alice, example_bob] ''alice'' SwarmState = Inr b
      \<and> map node_name (nodes b) = [''alice'', ''bob'']
      \<and> map node_action (nodes b) = [example_alice, example_bob]
      \<and> map node_destinations (nodes b) = [[''bob'', ''carol''], []]
      \<and> map branch_source (branches b) = [START]
      \<and> map branch_path_map (branches b) = [[''alice'', ''bob'']]
      \<and> map (\<lambda>r. branch_path r [''active_agent'' \<mapsto> PyStr ''bob'']) (branches b)
          = [PyStr ''bob'']
      \<and> map (\<lambda>r. branch_path r Map.empty) (branches b) = [PyStr ''alice'']"
proof -
  have schema: "''active_agent'' \<in> set (annotations SwarmState)"
    by (simp add: SwarmState_def)
  have default: "''alice'' \<in> set (map name [example_alice, example_bob])"
    by (simp add: example_names)
  have dist: "distinct (map name [example_alice, example_bob])"
    by (simp add: example_names)
  have valid: "\<forall>a\<in>set [example_alice, example_bob]. name a \<notin> set (annotations SwarmState)
      \<and> name a \<noteq> END \<and> name a \<noteq> START
      \<and> CHR ''|'' \<notin> set (name a) \<and> CHR '':'' \<notin> set (name a)"
    by (simp add: example_names SwarmState_def START_def END_def)
  from create_swarm_builds_graph [OF schema default dist valid] show ?thesis
    by (auto simp: example_destinations example_names)
qed

section \<open>Properties of the handoff destinations\<close>





text \<open>
  C9. \<open>get_handoff_destinations\<close> returns the empty list whenever the named tool node is
  absent from the agent's graph or the node's data is not a \<open>ToolNode\<close>; it has no
  branch that raises.
\<close>

theorem get_handoff_destinations_total:
  assumes "get_graph_nodes agent tool_node_name = None
           \<or> (\<exists>n. get_graph_nodes agent tool_node_name = Some n
                 \<and> \<not> (\<exists>tools_by_name. data n = ToolNode tools_by_name))"
  shows "get_handoff_destinations agent tool_node_name = []"
  using assms
  by (auto simp: get_handoff_destinations_def Let_def split: option.splits node_data.splits)

theorem get_handoff_destinations_total_witness:
  "get_graph_nodes example_bob ''tools'' = None
   \<and> get_handoff_destinations example_bob ''tools'' = []
   \<and> get_graph_nodes example_alice ''agent'' = Some \<lparr>data = OtherData\<rparr>
   \<and> get_handoff_destinations example_alice ''agent'' = []"
proof -
  have absent: "get_graph_nodes example_bob ''tools'' = None"
    by (simp add: example_bob_def)
  have other: "get_graph_nodes example_alice ''agent'' = Some \<lparr>data = OtherData\<rparr>"
    by (simp add: example_alice_def)
  have "get_handoff_destinations example_bob ''tools'' = []"
    using get_handoff_destinations_total [of example_bob "''tools''"] absent by simp
  moreover have "get_handoff_destinations example_alice ''agent'' = []"
    using get_handoff_destinations_total [of example_alice "''agent''"] other by simp
  ultimately show ?thesis using absent other by simp
qed

end
